theory Spec2Isabelle
  imports Complex_Main
begin

section \<open>Conventions\<close>

text \<open>
  The quantitative engine of the dashboard (\<^verbatim>\<open>algo.py\<close>, \<^verbatim>\<open>models.py\<close>,
  \<^verbatim>\<open>tax_optimizer.py\<close>) is embedded function by function. Python floats are read as
  exact reals, Python integers as \<open>int\<close>, a \<^verbatim>\<open>dict\<close> as an association list in
  insertion order (\<^verbatim>\<open>d.get(k, v)\<close> is a lookup with default), and every exception the
  Python can raise is a value of \<open>error\<close> on the left of a sum.
\<close>

datatype error =
    KeyError
  | LinAlgError
  | ZeroDivisionError
  | ValueError
  | IndexError

type_synonym vec = "real list"
type_synonym mat = "real list list"

definition dict_get :: "('k \<times> 'v) list \<Rightarrow> 'k \<Rightarrow> 'v \<Rightarrow> 'v" where
  "dict_get d k dflt = (case map_of d k of None \<Rightarrow> dflt | Some v \<Rightarrow> v)"

section \<open>Tax helper (tax_optimizer.py)\<close>

text \<open>
  \<^verbatim>\<open>TAX_BRACKETS_2567\<close>: pairs of an upper bound and a rate, ascending. The last bound
  is \<^verbatim>\<open>float('inf')\<close>, written \<open>None\<close>.
\<close>

definition TAX_BRACKETS_2567 :: "(real option \<times> real) list" where
  "TAX_BRACKETS_2567 =
     [(Some 150000, 0),
      (Some 300000, 5 / 100),
      (Some 500000, 10 / 100),
      (Some 750000, 15 / 100),
      (Some 1000000, 20 / 100),
      (Some 2000000, 25 / 100),
      (Some 5000000, 30 / 100),
      (None, 35 / 100)]"

definition PERSONAL_DEDUCTION :: real where "PERSONAL_DEDUCTION = 60000"
definition SPOUSE_DEDUCTION :: real where "SPOUSE_DEDUCTION = 60000"
definition CHILD_DEDUCTION :: real where "CHILD_DEDUCTION = 30000"
definition PARENT_DEDUCTION :: real where "PARENT_DEDUCTION = 30000"
definition INSURANCE_LIFE_MAX :: real where "INSURANCE_LIFE_MAX = 100000"
definition INSURANCE_HEALTH_MAX :: real where "INSURANCE_HEALTH_MAX = 25000"
definition SOCIAL_SECURITY_MAX :: real where "SOCIAL_SECURITY_MAX = 9000"
definition PROVIDENT_FUND_MAX_PERCENT :: real where "PROVIDENT_FUND_MAX_PERCENT = 15 / 100"
definition PROVIDENT_FUND_MAX :: real where "PROVIDENT_FUND_MAX = 500000"
definition SSF_MAX_PERCENT :: real where "SSF_MAX_PERCENT = 30 / 100"
definition SSF_MAX_AMOUNT :: real where "SSF_MAX_AMOUNT = 200000"
definition RMF_MAX_PERCENT :: real where "RMF_MAX_PERCENT = 30 / 100"
definition RMF_MAX_AMOUNT :: real where "RMF_MAX_AMOUNT = 500000"

record TaxDeductions =
  personal :: real
  spouse :: real
  children :: int
  parents :: int
  life_insurance :: real
  health_insurance :: real
  social_security :: real
  provident_fund :: real
  ssf_current :: real
  rmf_current :: real
  other_deductions :: real

record TaxResult =
  gross_income :: real
  expense_deduction :: real
  total_deductions :: real
  net_income :: real
  tax_before_deduction :: real
  tax_after_deduction :: real
  effective_rate :: real
  tax_bracket :: string

text \<open>The three branches of \<^verbatim>\<open>calculate_expense_deduction\<close> return the same expression.\<close>

definition calculate_expense_deduction :: "real \<Rightarrow> string \<Rightarrow> real" where
  "calculate_expense_deduction income income_type =
     (if income_type = ''salary'' then min (income * (50 / 100)) 100000
      else if income_type = ''freelance'' then min (income * (50 / 100)) 100000
      else min (income * (50 / 100)) 100000)"

definition calculate_total_deductions :: "TaxDeductions \<Rightarrow> real \<Rightarrow> real" where
  "calculate_total_deductions deductions income =
     (let total = personal deductions;
          total = total + min (spouse deductions) SPOUSE_DEDUCTION;
          total = total + of_int (children deductions) * CHILD_DEDUCTION;
          total = total + of_int (min (parents deductions) 4) * PARENT_DEDUCTION;
          total = total + min (life_insurance deductions) INSURANCE_LIFE_MAX;
          total = total + min (health_insurance deductions) INSURANCE_HEALTH_MAX;
          total = total + min (social_security deductions) SOCIAL_SECURITY_MAX;
          pf_max = min (income * PROVIDENT_FUND_MAX_PERCENT) PROVIDENT_FUND_MAX;
          total = total + min (provident_fund deductions) pf_max;
          ssf_max = min (income * SSF_MAX_PERCENT) SSF_MAX_AMOUNT;
          total = total + min (ssf_current deductions) ssf_max;
          rmf_max = min (income * RMF_MAX_PERCENT) RMF_MAX_AMOUNT;
          total = total + min (rmf_current deductions) rmf_max;
          total = total + other_deductions deductions
      in total)"

text \<open>
  Decimal digits of a natural number, for the f-string \<^verbatim>\<open>f"{rate*100:.0f}%"\<close>. The
  rates formatted are those of the bracket table: non-negative, with an integral
  percentage, which \<^verbatim>\<open>.0f\<close> prints as that integer.
\<close>

fun string_of_nat :: "nat \<Rightarrow> string" where
  "string_of_nat n =
     (if n < 10 then [''0123456789'' ! n]
      else string_of_nat (n div 10) @ [''0123456789'' ! (n mod 10)])"

declare string_of_nat.simps [simp del]

definition rate_label :: "real \<Rightarrow> string" where
  "rate_label rate = string_of_nat (nat (round (rate * 100))) @ ''%''"

text \<open>
  The loop of \<^verbatim>\<open>calculate_tax\<close>, with its four variables as arguments. At the bracket
  whose bound is infinite, \<^verbatim>\<open>min(remaining, bracket - prev_bracket)\<close> is \<open>remaining\<close>,
  so \<open>remaining\<close> drops to zero and the loop breaks there.
\<close>

fun calculate_tax_loop ::
  "(real option \<times> real) list \<Rightarrow> real \<Rightarrow> real \<Rightarrow> real \<Rightarrow> string \<Rightarrow> real \<times> string" where
  "calculate_tax_loop [] tax remaining prev_bracket current_rate = (tax, current_rate)"
| "calculate_tax_loop ((None, rate) # rest) tax remaining prev_bracket current_rate =
     (let taxable = remaining
      in if taxable > 0 then (tax + taxable * rate, rate_label rate)
         else (tax, current_rate))"
| "calculate_tax_loop ((Some bracket, rate) # rest) tax remaining prev_bracket current_rate =
     (let taxable = min remaining (bracket - prev_bracket);
          tax' = (if taxable > 0 then tax + taxable * rate else tax);
          current_rate' = (if taxable > 0 then rate_label rate else current_rate);
          remaining' = remaining - taxable
      in if remaining' \<le> 0 then (tax', current_rate')
         else calculate_tax_loop rest tax' remaining' bracket current_rate')"

definition calculate_tax :: "real \<Rightarrow> real \<times> string" where
  "calculate_tax net =
     (if net \<le> 0 then (0, ''0%'')
      else calculate_tax_loop TAX_BRACKETS_2567 0 net 0 ''0%'')"

fun get_marginal_rate_loop :: "(real option \<times> real) list \<Rightarrow> real \<Rightarrow> real" where
  "get_marginal_rate_loop [] net = 35 / 100"
| "get_marginal_rate_loop ((None, rate) # rest) net = rate"
| "get_marginal_rate_loop ((Some bracket, rate) # rest) net =
     (if net \<le> bracket then rate else get_marginal_rate_loop rest net)"

definition get_marginal_rate :: "real \<Rightarrow> real" where
  "get_marginal_rate net = get_marginal_rate_loop TAX_BRACKETS_2567 net"

definition calculate_full_tax :: "real \<Rightarrow> TaxDeductions \<Rightarrow> string \<Rightarrow> TaxResult" where
  "calculate_full_tax gross deductions income_type =
     (let expense = calculate_expense_deduction gross income_type;
          total = calculate_total_deductions deductions gross;
          net = max 0 (gross - expense - total);
          (tax, bracket) = calculate_tax net;
          rate = (if gross > 0 then tax / gross * 100 else 0)
      in \<lparr> gross_income = gross,
           expense_deduction = expense,
           total_deductions = total,
           net_income = net,
           tax_before_deduction = tax,
           tax_after_deduction = tax,
           effective_rate = rate,
           tax_bracket = bracket \<rparr>)"

text \<open>A deduction record whose amounts and counts are all non-negative.\<close>

definition nonneg_deductions :: "TaxDeductions \<Rightarrow> bool" where
  "nonneg_deductions d =
     (0 \<le> personal d \<and> 0 \<le> spouse d \<and> 0 \<le> children d \<and> 0 \<le> parents d \<and>
      0 \<le> life_insurance d \<and> 0 \<le> health_insurance d \<and> 0 \<le> social_security d \<and>
      0 \<le> provident_fund d \<and> 0 \<le> ssf_current d \<and> 0 \<le> rmf_current d \<and>
      0 \<le> other_deductions d)"

definition default_deductions :: TaxDeductions where
  "default_deductions =
     \<lparr> personal = PERSONAL_DEDUCTION, spouse = 0, children = 0, parents = 0,
       life_insurance = 0, health_insurance = 0, social_security = 0, provident_fund = 0,
       ssf_current = 0, rmf_current = 0, other_deductions = 0 \<rparr>"

section \<open>Rebalancing advisor (models.py)\<close>

record RebalanceAction =
  asset :: string
  action :: string
  current_weight :: real
  target_weight :: real
  drift :: real
  trade_amount :: real
  trade_units :: int

text \<open>\<^verbatim>\<open>int(x)\<close> on a float: truncation toward zero.\<close>

definition py_int :: "real \<Rightarrow> int" where
  "py_int x = (if 0 \<le> x then \<lfloor>x\<rfloor> else \<lceil>x\<rceil>)"

text \<open>
  \<^verbatim>\<open>list.sort(key=k, reverse=True)\<close>: a stable sort on the reversed list, reversed
  again, so that equal keys keep their original order.
\<close>

definition sort_reverse :: "('a \<Rightarrow> real) \<Rightarrow> 'a list \<Rightarrow> 'a list" where
  "sort_reverse k xs = rev (sort_key k (rev xs))"

definition default_asset_prices :: "(string \<times> real) list" where
  "default_asset_prices =
     [(''Thai Stock'', 100), (''US Tech'', 450), (''Gold'', 180), (''Bonds'', 100)]"

text \<open>
  The body of the loop over the assets. \<^verbatim>\<open>trade_amount / price\<close> raises
  \<^verbatim>\<open>ZeroDivisionError\<close> on a zero price.
\<close>

fun action_loop ::
  "(string \<times> real) list \<Rightarrow> (string \<times> real) list \<Rightarrow> real \<Rightarrow> (string \<times> real) list \<Rightarrow> real \<Rightarrow>
   string list \<Rightarrow> RebalanceAction list \<Rightarrow> error + RebalanceAction list" where
  "action_loop current_weights target_weights portfolio_value asset_prices drift_threshold
     [] actions = Inr actions"
| "action_loop current_weights target_weights portfolio_value asset_prices drift_threshold
     (a # rest) actions =
     (let current = dict_get current_weights a 0;
          target = dict_get target_weights a 0;
          d = current - target
      in if \<bar>d\<bar> > drift_threshold then
           (let amount = \<bar>d\<bar> * portfolio_value;
                price = dict_get asset_prices a 100
            in if price = 0 then Inl ZeroDivisionError
               else action_loop current_weights target_weights portfolio_value asset_prices
                      drift_threshold rest
                      (actions @
                       [\<lparr> asset = a,
                          action = (if d > 0 then ''SELL'' else ''BUY''),
                          current_weight = current,
                          target_weight = target,
                          drift = d,
                          trade_amount = amount,
                          trade_units = py_int (amount / price) \<rparr>]))
         else action_loop current_weights target_weights portfolio_value asset_prices
                drift_threshold rest actions)"

text \<open>
  \<^verbatim>\<open>generate_action_plan\<close>. The assets are listed from a Python \<^verbatim>\<open>set\<close>, whose
  iteration order is the interpreter's: \<open>set_iter ks\<close> stands for the list built from
  the set of the elements of \<open>ks\<close>.
\<close>

definition generate_action_plan ::
  "(string list \<Rightarrow> string list) \<Rightarrow> (string \<times> real) list \<Rightarrow> (string \<times> real) list \<Rightarrow> real \<Rightarrow>
   (string \<times> real) list option \<Rightarrow> real \<Rightarrow> error + RebalanceAction list" where
  "generate_action_plan set_iter current_weights target_weights portfolio_value asset_prices
     drift_threshold =
     (let prices = (case asset_prices of None \<Rightarrow> default_asset_prices | Some p \<Rightarrow> p);
          assets = set_iter (map fst current_weights @ map fst target_weights)
      in case action_loop current_weights target_weights portfolio_value prices
                drift_threshold assets [] of
           Inl e \<Rightarrow> Inl e
         | Inr actions \<Rightarrow> Inr (sort_reverse (\<lambda>x. \<bar>trade_amount x\<bar>) actions))"

text \<open>What a set's iteration gives: every element once.\<close>

definition lists_each_once :: "(string list \<Rightarrow> string list) \<Rightarrow> bool" where
  "lists_each_once set_iter = (\<forall>ks. set (set_iter ks) = set ks \<and> distinct (set_iter ks))"

definition price_table :: "(string \<times> real) list option \<Rightarrow> (string \<times> real) list" where
  "price_table asset_prices = (case asset_prices of None \<Rightarrow> default_asset_prices | Some p \<Rightarrow> p)"

definition positive_prices :: "(string \<times> real) list option \<Rightarrow> bool" where
  "positive_prices asset_prices = list_all (\<lambda>(a, p). 0 < p) (price_table asset_prices)"

text \<open>The action the loop appends for an asset.\<close>

definition action_of ::
  "(string \<times> real) list \<Rightarrow> (string \<times> real) list \<Rightarrow> real \<Rightarrow> (string \<times> real) list \<Rightarrow> string \<Rightarrow>
   RebalanceAction" where
  "action_of current_weights target_weights portfolio_value prices a =
     (let current = dict_get current_weights a 0;
          target = dict_get target_weights a 0;
          d = current - target
      in \<lparr> asset = a,
           action = (if d > 0 then ''SELL'' else ''BUY''),
           current_weight = current,
           target_weight = target,
           drift = d,
           trade_amount = \<bar>d\<bar> * portfolio_value,
           trade_units = \<lfloor>\<bar>d\<bar> * portfolio_value / dict_get prices a 100\<rfloor> \<rparr>)"

definition drift_of :: "(string \<times> real) list \<Rightarrow> (string \<times> real) list \<Rightarrow> string \<Rightarrow> real" where
  "drift_of current_weights target_weights a =
     dict_get current_weights a 0 - dict_get target_weights a 0"

section \<open>Arrays and labelled tables\<close>

text \<open>
  A numpy vector is a list, a matrix a list of rows. The operations carry the number of
  columns where the list of rows alone does not give it.
\<close>

definition dot :: "vec \<Rightarrow> vec \<Rightarrow> real" where
  "dot u v = (\<Sum>i<length u. u ! i * v ! i)"

definition mat_vec :: "mat \<Rightarrow> vec \<Rightarrow> vec" where
  "mat_vec A v = map (\<lambda>row. dot row v) A"

text \<open>\<open>mat_mul n A B\<close> is \<^verbatim>\<open>A @ B\<close> for a matrix \<open>B\<close> of \<open>n\<close> columns.\<close>

definition mat_mul :: "nat \<Rightarrow> mat \<Rightarrow> mat \<Rightarrow> mat" where
  "mat_mul n A B = map (\<lambda>row. map (\<lambda>j. \<Sum>l<length row. row ! l * B ! l ! j) [0..<n]) A"

text \<open>\<open>mat_T n A\<close> is \<^verbatim>\<open>A.T\<close> for a matrix \<open>A\<close> of \<open>n\<close> columns.\<close>

definition mat_T :: "nat \<Rightarrow> mat \<Rightarrow> mat" where
  "mat_T n A = map (\<lambda>j. map (\<lambda>row. row ! j) A) [0..<n]"

definition scal :: "real \<Rightarrow> mat \<Rightarrow> mat" where
  "scal c A = map (map ((*) c)) A"

definition mat_add :: "mat \<Rightarrow> mat \<Rightarrow> mat" where
  "mat_add A B = map2 (map2 (+)) A B"

definition vec_add :: "vec \<Rightarrow> vec \<Rightarrow> vec" where
  "vec_add u v = map2 (+) u v"

text \<open>\<^verbatim>\<open>np.diag\<close> of a square matrix (its diagonal) and of a vector (the diagonal matrix).\<close>

definition diag_of :: "mat \<Rightarrow> vec" where
  "diag_of A = map (\<lambda>i. A ! i ! i) [0..<length A]"

definition diag_mat :: "vec \<Rightarrow> mat" where
  "diag_mat d = map (\<lambda>i. map (\<lambda>j. if i = j then d ! i else 0) [0..<length d]) [0..<length d]"

text \<open>\<^verbatim>\<open>xs.index(x)\<close> for an \<open>x\<close> of the list: the first position.\<close>

fun index_of :: "'a list \<Rightarrow> 'a \<Rightarrow> nat" where
  "index_of [] x = 0"
| "index_of (y # ys) x = (if x = y then 0 else Suc (index_of ys x))"

text \<open>
  A pandas \<^verbatim>\<open>DataFrame\<close>: row labels, column labels and the values. A \<^verbatim>\<open>Series\<close> is
  the list of its (label, value) pairs. \<^verbatim>\<open>df.loc[rows, cols].values\<close> raises
  \<^verbatim>\<open>KeyError\<close> when a label is missing.
\<close>

record DataFrame =
  df_index :: "string list"
  df_columns :: "string list"
  df_values :: mat

definition loc :: "DataFrame \<Rightarrow> string list \<Rightarrow> string list \<Rightarrow> error + mat" where
  "loc df rows cols =
     (if set rows \<subseteq> set (df_index df) \<and> set cols \<subseteq> set (df_columns df)
      then Inr (map (\<lambda>r. map (\<lambda>c. df_values df ! index_of (df_index df) r
                                     ! index_of (df_columns df) c) cols) rows)
      else Inl KeyError)"

section \<open>Black-Litterman model (algo.py)\<close>

text \<open>
  \<^verbatim>\<open>calculate_equilibrium_returns\<close>. \<^verbatim>\<open>risk_aversion * cov @ weights\<close> parses as
  \<^verbatim>\<open>(risk_aversion * cov) @ weights\<close>. The weights are the dictionary's values in key
  order.
\<close>

definition calculate_equilibrium_returns ::
  "DataFrame \<Rightarrow> (string \<times> real) list \<Rightarrow> real \<Rightarrow> real \<Rightarrow> error + (string \<times> real) list" where
  "calculate_equilibrium_returns cov_matrix market_weights risk_aversion risk_free_rate =
     (let assets = map fst market_weights;
          weights = map snd market_weights
      in case loc cov_matrix assets assets of
           Inl e \<Rightarrow> Inl e
         | Inr cov \<Rightarrow>
             (let excess_returns = mat_vec (scal risk_aversion cov) weights;
                  total_returns = map (\<lambda>x. x + risk_free_rate) excess_returns
              in Inr (zip assets total_returns)))"

text \<open>
  The weights \<^verbatim>\<open>_optimize_portfolio\<close> returns: a series of numbers, or the series
  numpy gives for 0/0 in every entry (all NaN, no exception).
\<close>

datatype weight_series =
    Weights "(string \<times> real) list"
  | NaN_weights "string list"

text \<open>
  \<^verbatim>\<open>_optimize_portfolio\<close>, written \<open>optimize_portfolio\<close> (a name cannot start
  with an underscore). \<open>solver mu Sig risk_aversion\<close> stands for scipy's
  \<^verbatim>\<open>optimize.minimize\<close> on the objective, constraint, bounds and starting point built
  from these three: it gives \<^verbatim>\<open>result.success\<close> and \<^verbatim>\<open>result.x\<close>. With no
  asset at all \<^verbatim>\<open>minimize\<close> raises \<^verbatim>\<open>ValueError\<close> on the empty starting point; a
  Series needs as many values as labels.
\<close>

definition optimize_portfolio ::
  "(vec \<Rightarrow> mat \<Rightarrow> real \<Rightarrow> bool \<times> vec) \<Rightarrow> (string \<times> real) list \<Rightarrow> DataFrame \<Rightarrow> real \<Rightarrow>
   error + weight_series" where
  "optimize_portfolio solver expected_returns cov_matrix risk_aversion =
     (let assets = map fst expected_returns;
          n = length assets;
          mu = map snd expected_returns
      in case loc cov_matrix assets assets of
           Inl e \<Rightarrow> Inl e
         | Inr Sig \<Rightarrow>
             if n = 0 then Inl ValueError
             else
               (let (success, x) = solver mu Sig risk_aversion;
                    weights = (if success then x else replicate n (1 / real n));
                    weights = map (\<lambda>w. if w < 1 / 100 then 0 else w) weights;
                    total = sum_list weights
                in if length weights \<noteq> n then Inl ValueError
                   else if total = 0 then Inr (NaN_weights assets)
                   else Inr (Weights (zip assets (map (\<lambda>w. w / total) weights)))))"

text \<open>
  \<^verbatim>\<open>black_litterman\<close>; \<open>pi_s\<close> is the source's \<^verbatim>\<open>pi\<close> and \<open>Sig\<close> its
  \<^verbatim>\<open>Sigma\<close>. \<open>linalg_inv\<close> stands for \<^verbatim>\<open>np.linalg.linalg_inv\<close>, which raises
  \<^verbatim>\<open>LinAlgError\<close> on a singular matrix. A view on an asset that is not a key of
  \<^verbatim>\<open>market_weights\<close> leaves its row of \<open>P\<close> and its entry of \<open>Q\<close> zero. The steps
  are taken in the source's order, so the first exception raised is the one returned.
\<close>

definition pick_row :: "string list \<Rightarrow> string \<Rightarrow> vec" where
  "pick_row assets a =
     (if a \<in> set assets then (replicate (length assets) 0)[index_of assets a := 1]
      else replicate (length assets) 0)"

text \<open>Step 2: the pick matrix \<open>P\<close> and the view returns \<open>Q\<close>.\<close>

definition pick_matrix :: "string list \<Rightarrow> (string \<times> real) list \<Rightarrow> mat" where
  "pick_matrix assets views = map (\<lambda>(a, v). pick_row assets a) views"

definition view_returns :: "string list \<Rightarrow> (string \<times> real) list \<Rightarrow> vec" where
  "view_returns assets views = map (\<lambda>(a, v). if a \<in> set assets then v else 0) views"

text \<open>
  Step 3. \<^verbatim>\<open>np.diag\<close> of a 2-D array returns a read-only view of its diagonal: the
  vector comes with its \<^verbatim>\<open>writeable\<close> flag, here \<open>False\<close>.
\<close>

definition np_diag_view :: "mat \<Rightarrow> vec \<times> bool" where
  "np_diag_view A = (diag_of A, False)"

text \<open>
  The loop over \<^verbatim>\<open>views.keys()\<close> that divides entry \<open>i\<close> in place by the view's
  confidence, clamped from below at 0.1. An in-place write into an array that is not
  writeable raises \<^verbatim>\<open>ValueError\<close> (assignment destination is read-only).
\<close>

fun confidence_loop ::
  "(string \<times> real) list \<Rightarrow> (string \<times> real) list \<Rightarrow> nat \<Rightarrow> vec \<times> bool \<Rightarrow> error + vec" where
  "confidence_loop confidences [] i (omega_diag, writeable) = Inr omega_diag"
| "confidence_loop confidences ((a, v) # rest) i (omega_diag, writeable) =
     (let conf = dict_get confidences a (5 / 10)
      in if \<not> writeable then Inl ValueError
         else confidence_loop confidences rest (Suc i)
                (omega_diag[i := omega_diag ! i / max conf (1 / 10)], writeable))"

definition uncertainty_matrix ::
  "string list \<Rightarrow> (string \<times> real) list \<Rightarrow> (string \<times> real) list \<Rightarrow> real \<Rightarrow> mat \<Rightarrow>
   error + mat" where
  "uncertainty_matrix assets views confidences tau Sig =
     (let P = pick_matrix assets views;
          omega_diag =
            np_diag_view (mat_mul (length views) (mat_mul (length assets) P (scal tau Sig))
                            (mat_T (length assets) P))
      in case confidence_loop confidences views 0 omega_diag of
           Inl e \<Rightarrow> Inl e
         | Inr omega_diag \<Rightarrow> Inr (diag_mat omega_diag))"

text \<open>Step 4: the posterior returns, with the three inversions in the source's order.\<close>

definition posterior_returns ::
  "(mat \<Rightarrow> error + mat) \<Rightarrow> nat \<Rightarrow> nat \<Rightarrow> mat \<Rightarrow> vec \<Rightarrow> mat \<Rightarrow> mat \<Rightarrow> vec \<Rightarrow> error + vec" where
  "posterior_returns linalg_inv n_assets n_views P Q Omega tau_Sigma pi_array =
     (case linalg_inv tau_Sigma of
        Inl e \<Rightarrow> Inl e
      | Inr tau_Sigma_inv \<Rightarrow>
          (case linalg_inv Omega of
             Inl e \<Rightarrow> Inl e
           | Inr Omega_inv \<Rightarrow>
               (let PtO = mat_mul n_views (mat_T n_assets P) Omega_inv
                in case linalg_inv (mat_add tau_Sigma_inv (mat_mul n_assets PtO P)) of
                     Inl e \<Rightarrow> Inl e
                   | Inr left_term \<Rightarrow>
                       (let right_term =
                              vec_add (mat_vec tau_Sigma_inv pi_array) (mat_vec PtO Q)
                        in Inr (mat_vec left_term right_term)))))"

definition black_litterman ::
  "(mat \<Rightarrow> error + mat) \<Rightarrow> (vec \<Rightarrow> mat \<Rightarrow> real \<Rightarrow> bool \<times> vec) \<Rightarrow> DataFrame \<Rightarrow>
   (string \<times> real) list \<Rightarrow> (string \<times> real) list \<Rightarrow> (string \<times> real) list option \<Rightarrow>
   real \<Rightarrow> real \<Rightarrow> real \<Rightarrow> error + ((string \<times> real) list \<times> weight_series)" where
  "black_litterman linalg_inv solver cov_matrix market_weights views view_confidences tau
     risk_aversion risk_free_rate =
     (let assets = map fst market_weights;
          n_assets = length assets
      in case calculate_equilibrium_returns cov_matrix market_weights risk_aversion
                risk_free_rate of
           Inl e \<Rightarrow> Inl e
         | Inr pi_s \<Rightarrow>
             if views = [] then
               (case optimize_portfolio solver pi_s cov_matrix risk_aversion of
                  Inl e \<Rightarrow> Inl e
                | Inr weights \<Rightarrow> Inr (pi_s, weights))
             else
               (let n_views = length views;
                    confidences = (case view_confidences of
                                     None \<Rightarrow> map (\<lambda>(a, v). (a, 5 / 10)) views
                                   | Some c \<Rightarrow> c);
                    P = pick_matrix assets views;
                    Q = view_returns assets views
                in case loc cov_matrix assets assets of
                     Inl e \<Rightarrow> Inl e
                   | Inr Sig \<Rightarrow>
                       (case uncertainty_matrix assets views confidences tau Sig of
                          Inl e \<Rightarrow> Inl e
                        | Inr Omega \<Rightarrow>
                            (let tau_Sigma = scal tau Sig
                             in case posterior_returns linalg_inv n_assets n_views P Q Omega
                                       tau_Sigma (map snd pi_s) of
                                  Inl e \<Rightarrow> Inl e
                                | Inr posterior \<Rightarrow>
                                    (let posterior_series = zip assets posterior
                                     in case optimize_portfolio solver posterior_series
                                               cov_matrix risk_aversion of
                                          Inl e \<Rightarrow> Inl e
                                        | Inr optimal_weights \<Rightarrow>
                                            Inr (posterior_series, optimal_weights))))))"

text \<open>
  An exact inverse for matrices of order 1 and 2 (the cofactor formula), with
  \<^verbatim>\<open>LinAlgError\<close> on a singular or non-square argument. It instantiates \<open>linalg_inv\<close> in the
  closed examples, all of order at most 2; it does not invert larger matrices.
\<close>

fun inv_upto2 :: "mat \<Rightarrow> error + mat" where
  "inv_upto2 [[a]] = (if a = 0 then Inl LinAlgError else Inr [[1 / a]])"
| "inv_upto2 [[a, b], [c, d]] =
     (if a * d - b * c = 0 then Inl LinAlgError
      else Inr [[d / (a * d - b * c), - b / (a * d - b * c)],
                [- c / (a * d - b * c), a / (a * d - b * c)]])"
| "inv_upto2 M = Inl LinAlgError"

text \<open>The clean-up of small weights, \<^verbatim>\<open>np.where(weights < 0.01, 0, weights)\<close>, entrywise.\<close>

definition prune :: "real \<Rightarrow> real" where
  "prune w = (if w < 1 / 100 then 0 else w)"

subsection \<open>Inputs of the closed examples\<close>

text \<open>The two-asset fixture of the specification, and two solvers.\<close>

definition example_cov :: DataFrame where
  "example_cov =
     \<lparr> df_index = [''X'', ''Y''], df_columns = [''X'', ''Y''],
       df_values = [[4 / 100, 1 / 100], [1 / 100, 9 / 100]] \<rparr>"

definition example_market_weights :: "(string \<times> real) list" where
  "example_market_weights = [(''X'', 6 / 10), (''Y'', 4 / 10)]"

definition example_returns :: "(string \<times> real) list" where
  "example_returns = [(''X'', 9 / 100), (''Y'', 1 / 8)]"

definition no_convergence :: "vec \<Rightarrow> mat \<Rightarrow> real \<Rightarrow> bool \<times> vec" where
  "no_convergence mu Sig risk_aversion = (False, [])"

definition equal_weight_optimum :: "vec \<Rightarrow> mat \<Rightarrow> real \<Rightarrow> bool \<times> vec" where
  "equal_weight_optimum mu Sig risk_aversion =
     (True, replicate (length mu) (1 / real (length mu)))"

text \<open>
  101 assets with identical expected returns and the identity as covariance: the
  constrained optimum is the equal weighting, which is also the solver's starting point.
\<close>

definition many_assets :: "string list" where
  "many_assets = map (\<lambda>i. replicate (Suc i) CHR ''a'') [0..<101]"

definition many_cov :: DataFrame where
  "many_cov =
     \<lparr> df_index = many_assets, df_columns = many_assets,
       df_values = map (\<lambda>i. map (\<lambda>j. if i = j then 1 else 0) [0..<101]) [0..<101] \<rparr>"

definition many_returns :: "(string \<times> real) list" where
  "many_returns = map (\<lambda>a. (a, 5 / 100)) many_assets"

section \<open>Monte Carlo projector (models.py)\<close>

record SimulationResult =
  years :: "real list"
  paths :: mat
  percentile_10 :: "real list"
  percentile_50 :: "real list"
  percentile_90 :: "real list"
  final_values :: vec
  probability_of_success :: real

text \<open>
  \<^verbatim>\<open>np.percentile\<close> of a non-empty list of values, with its default linear
  interpolation between order statistics.
\<close>

definition percentile :: "real list \<Rightarrow> real \<Rightarrow> real" where
  "percentile xs q =
     (let sorted_xs = sort xs;
          n = length xs;
          h = q / 100 * real (n - 1);
          lo = nat \<lfloor>h\<rfloor>;
          hi = min (lo + 1) (n - 1)
      in sorted_xs ! lo + (h - real lo) * (sorted_xs ! hi - sorted_xs ! lo))"

definition column :: "mat \<Rightarrow> nat \<Rightarrow> vec" where
  "column A j = map (\<lambda>row. row ! j) A"

text \<open>
  \<^verbatim>\<open>np.percentile(paths, q, axis=0)\<close> for a matrix of \<open>m\<close> columns: the percentile of
  every column. On a matrix with no row it raises \<^verbatim>\<open>IndexError\<close>.
\<close>

definition percentile_axis0 :: "mat \<Rightarrow> nat \<Rightarrow> real \<Rightarrow> error + real list" where
  "percentile_axis0 A m q =
     (if A = [] then Inl IndexError
      else Inr (map (\<lambda>j. percentile (column A j) q) [0..<m]))"

text \<open>
  One pass of the loop over \<open>t\<close>: column \<open>t\<close> of every path is set from column \<open>t - 1\<close>
  and the shock of index \<open>t - 1\<close>.
\<close>

definition gbm_step :: "real \<Rightarrow> real \<Rightarrow> real \<Rightarrow> (nat \<Rightarrow> nat \<Rightarrow> real) \<Rightarrow> mat \<Rightarrow> nat \<Rightarrow> mat" where
  "gbm_step drift_m monthly_volatility monthly_contribution random_shocks A t =
     map (\<lambda>i. (A ! i)[t := A ! i ! (t - 1) *
                   exp (drift_m + monthly_volatility * random_shocks i (t - 1))
                   + monthly_contribution])
       [0..<length A]"

text \<open>
  \<^verbatim>\<open>run_monte_carlo\<close>. The function has no seed argument: it calls
  \<^verbatim>\<open>np.random.seed(42)\<close> and \<^verbatim>\<open>np.random.standard_normal\<close> on numpy's
  process-wide generator. The generator's state is threaded explicitly: \<open>g\<close> is the
  state at the call, and the state after the call is returned with the result.
  \<open>seed\<close> and \<open>standard_normal\<close> stand for the two numpy functions; the sample of shape
  (rows, columns) is read by index. \<^verbatim>\<open>np.zeros\<close> raises \<^verbatim>\<open>ValueError\<close> on a
  negative dimension, after the generator has been reseeded; with zero simulations
  \<^verbatim>\<open>np.percentile\<close> raises \<^verbatim>\<open>IndexError\<close>, after the sample has been drawn. The
  mean of \<^verbatim>\<open>final_values >= goal_amount\<close> is then taken over at least one path.
\<close>

definition run_monte_carlo ::
  "(nat \<Rightarrow> 's) \<Rightarrow> ('s \<Rightarrow> nat \<Rightarrow> nat \<Rightarrow> (nat \<Rightarrow> nat \<Rightarrow> real) \<times> 's) \<Rightarrow> 's \<Rightarrow>
   real \<Rightarrow> real \<Rightarrow> int \<Rightarrow> real \<Rightarrow> real \<Rightarrow> int \<Rightarrow> real option \<Rightarrow>
   (error + SimulationResult) \<times> 's" where
  "run_monte_carlo seed standard_normal g current_wealth monthly_contribution
     years_to_retire annual_return annual_volatility n_simulations goal_amount =
     (let g1 = seed 42;
          n_periods = years_to_retire * 12;
          monthly_volatility = annual_volatility / sqrt 12;
          drift_m = (annual_return - 5 / 10 * annual_volatility ^ 2) / 12
      in if n_simulations < 0 \<or> n_periods + 1 < 0 then (Inl ValueError, g1)
         else
           (let n = nat n_simulations;
                m = nat n_periods;
                paths0 = replicate n (current_wealth # replicate m 0);
                (random_shocks, g2) = standard_normal g1 n m;
                A = foldl (gbm_step drift_m monthly_volatility monthly_contribution
                             random_shocks) paths0 [1..<m + 1]
            in case percentile_axis0 A (m + 1) 10 of
                 Inl e \<Rightarrow> (Inl e, g2)
               | Inr p10 \<Rightarrow>
                   (case percentile_axis0 A (m + 1) 50 of
                      Inl e \<Rightarrow> (Inl e, g2)
                    | Inr p50 \<Rightarrow>
                        (case percentile_axis0 A (m + 1) 90 of
                           Inl e \<Rightarrow> (Inl e, g2)
                         | Inr p90 \<Rightarrow>
                             (let finals = column A m
                              in (Inr \<lparr> years = map (\<lambda>i. real i / 12) [0..<m + 1],
                                         paths = A,
                                         percentile_10 = p10,
                                         percentile_50 = p50,
                                         percentile_90 = p90,
                                         final_values = finals,
                                         probability_of_success =
                                           (case goal_amount of
                                              None \<Rightarrow> 1
                                            | Some goal \<Rightarrow>
                                                real (length (filter (\<lambda>v. v \<ge> goal) finals))
                                                  / real (length finals)) \<rparr>,
                                  g2))))))"

text \<open>
  The value of path \<open>i\<close> after \<open>t\<close> months, by the recurrence the loop body states.
\<close>

fun gbm_path :: "real \<Rightarrow> real \<Rightarrow> real \<Rightarrow> real \<Rightarrow> (nat \<Rightarrow> nat \<Rightarrow> real) \<Rightarrow> nat \<Rightarrow> nat \<Rightarrow> real" where
  "gbm_path w0 drift_m vol_m contribution Z i 0 = w0"
| "gbm_path w0 drift_m vol_m contribution Z i (Suc t) =
     gbm_path w0 drift_m vol_m contribution Z i t * exp (drift_m + vol_m * Z i t)
       + contribution"

text \<open>
  A generator for the closed examples: its state counts the numbers drawn since the
  seed, and every number drawn is 0.
\<close>

definition counter_seed :: "nat \<Rightarrow> nat" where
  "counter_seed k = k"

definition counter_standard_normal :: "nat \<Rightarrow> nat \<Rightarrow> nat \<Rightarrow> (nat \<Rightarrow> nat \<Rightarrow> real) \<times> nat" where
  "counter_standard_normal g rows cols = (\<lambda>i j. 0, g + rows * cols)"

section \<open>Properties of the tax helper\<close>

lemma calculate_tax_first_bracket:
  "net \<le> 150000 \<Longrightarrow> calculate_tax net = (0, ''0%'')"
  by (simp add: calculate_tax_def TAX_BRACKETS_2567_def rate_label_def
      string_of_nat.simps Let_def min_def)

lemma calculate_total_deductions_nonneg:
  "nonneg_deductions d \<Longrightarrow> 0 \<le> calculate_total_deductions d 0"
  unfolding nonneg_deductions_def calculate_total_deductions_def Let_def
  by (simp add: SPOUSE_DEDUCTION_def CHILD_DEDUCTION_def PARENT_DEDUCTION_def
      INSURANCE_LIFE_MAX_def INSURANCE_HEALTH_MAX_def SOCIAL_SECURITY_MAX_def
      PROVIDENT_FUND_MAX_def SSF_MAX_AMOUNT_def RMF_MAX_AMOUNT_def min_def)

text \<open>
  Claim C10. With a gross income of 0 and a deduction record of non-negative entries,
  \<^verbatim>\<open>calculate_full_tax\<close> reports a tax of 0 and the bracket label "0%". At a net
  income that is exactly a bracket's upper bound, \<^verbatim>\<open>get_marginal_rate\<close> returns the
  rate of the bracket that ends there (the lower one), for every finite bound of the
  table; \<^verbatim>\<open>calculate_tax\<close> labels the bounds 150,000 and 300,000 the same way.
\<close>

theorem calculate_full_tax_zero_income_and_boundaries:
  assumes "nonneg_deductions d"
  shows "tax_after_deduction (calculate_full_tax 0 d income_type) = 0 \<and>
         tax_before_deduction (calculate_full_tax 0 d income_type) = 0 \<and>
         tax_bracket (calculate_full_tax 0 d income_type) = ''0%'' \<and>
         get_marginal_rate 150000 = 0 \<and>
         get_marginal_rate 300000 = 5 / 100 \<and>
         get_marginal_rate 500000 = 10 / 100 \<and>
         get_marginal_rate 750000 = 15 / 100 \<and>
         get_marginal_rate 1000000 = 20 / 100 \<and>
         get_marginal_rate 2000000 = 25 / 100 \<and>
         get_marginal_rate 5000000 = 30 / 100 \<and>
         calculate_tax 150000 = (0, ''0%'') \<and>
         calculate_tax 300000 = (7500, ''5%'')"
proof -
  have expense: "calculate_expense_deduction 0 income_type = 0"
    by (simp add: calculate_expense_deduction_def)
  have "0 \<le> calculate_total_deductions d 0"
    using assms by (rule calculate_total_deductions_nonneg)
  then have net: "max 0 (- calculate_total_deductions d 0) = 0"
    by simp
  have tax: "calculate_tax 0 = (0, ''0%'')"
    by (simp add: calculate_tax_def)
  have full: "tax_after_deduction (calculate_full_tax 0 d income_type) = 0 \<and>
      tax_before_deduction (calculate_full_tax 0 d income_type) = 0 \<and>
      tax_bracket (calculate_full_tax 0 d income_type) = ''0%''"
    by (simp add: calculate_full_tax_def Let_def expense net tax)
  have marginal: "get_marginal_rate 150000 = 0 \<and>
      get_marginal_rate 300000 = 5 / 100 \<and>
      get_marginal_rate 500000 = 10 / 100 \<and>
      get_marginal_rate 750000 = 15 / 100 \<and>
      get_marginal_rate 1000000 = 20 / 100 \<and>
      get_marginal_rate 2000000 = 25 / 100 \<and>
      get_marginal_rate 5000000 = 30 / 100"
    by (simp add: get_marginal_rate_def TAX_BRACKETS_2567_def)
  have b1: "calculate_tax 150000 = (0, ''0%'')"
    by (simp add: calculate_tax_first_bracket)
  have b2: "calculate_tax 300000 = (7500, ''5%'')"
    by (simp add: calculate_tax_def TAX_BRACKETS_2567_def rate_label_def
        string_of_nat.simps)
  from full marginal b1 b2 show ?thesis
    by blast
qed

theorem calculate_full_tax_zero_income_witness:
  "nonneg_deductions default_deductions \<and>
   tax_after_deduction (calculate_full_tax 0 default_deductions ''salary'') = 0 \<and>
   tax_bracket (calculate_full_tax 0 default_deductions ''salary'') = ''0%'' \<and>
   get_marginal_rate 150000 = 0"
proof -
  have h: "nonneg_deductions default_deductions"
    by (simp add: nonneg_deductions_def default_deductions_def PERSONAL_DEDUCTION_def)
  show ?thesis
    using h calculate_full_tax_zero_income_and_boundaries [OF h, of "''salary''"]
    by simp
qed

section \<open>Properties of the rebalancing advisor\<close>

lemma dict_get_pos:
  "list_all (\<lambda>(a, p). 0 < p) ps \<Longrightarrow> 0 < dict_get ps a (100::real)"
  by (induction ps) (auto simp: dict_get_def)

lemma action_loop_ok:
  assumes "list_all (\<lambda>(a, p). 0 < p) ps" "0 \<le> pv"
  shows "action_loop cw tw pv ps th as acc =
     Inr (acc @ map (action_of cw tw pv ps) (filter (\<lambda>a. \<bar>drift_of cw tw a\<bar> > th) as))"
proof (induction as arbitrary: acc)
  case Nil
  then show ?case by simp
next
  case (Cons a as)
  have p: "0 < dict_get ps a 100" using assms(1) by (rule dict_get_pos)
  have q: "0 \<le> \<bar>drift_of cw tw a\<bar> * pv / dict_get ps a 100"
    using p assms(2) by simp
  show ?case
    using p q by (simp add: Cons.IH Let_def action_of_def drift_of_def py_int_def)
qed

lemma sort_reverse_set: "set (sort_reverse k xs) = set xs"
  by (simp add: sort_reverse_def)

lemma sort_reverse_length: "length (sort_reverse k xs) = length xs"
  by (simp add: sort_reverse_def)

lemma sort_reverse_sorted: "sorted_wrt (\<lambda>x y. k x \<ge> k y) (sort_reverse k xs)"
proof -
  have "sorted (map k (sort_key k (rev xs)))" by (rule sorted_sort_key)
  then have "sorted_wrt (\<lambda>x y. k x \<le> k y) (sort_key k (rev xs))"
    by (simp add: sorted_map)
  then show ?thesis
    unfolding sort_reverse_def by (simp add: sorted_wrt_rev)
qed

lemma sort_reverse_distinct: "distinct (map f xs) \<Longrightarrow> distinct (map f (sort_reverse k xs))"
  by (simp add: card_distinct distinct_card distinct_map sort_reverse_length
    sort_reverse_set)

lemma asset_action_of: "asset (action_of cw tw pv ps a) = a"
  by (simp add: action_of_def Let_def)

text \<open>
  Claim C8. For a non-negative portfolio value and positive unit prices,
  \<^verbatim>\<open>generate_action_plan\<close> returns a list holding exactly one action for every asset of
  either weight map whose absolute drift exceeds the threshold (a weight missing on one
  side counts as 0) and no other action. Each action records the two weights and their
  difference, is a SELL when the drift is positive and a BUY otherwise, trades
  \<open>\<bar>drift\<bar> * portfolio_value\<close> and \<open>\<lfloor>trade_amount / price\<rfloor>\<close> units. The list is in
  descending order of trade amount, and it is empty when no drift exceeds the threshold.
\<close>

theorem generate_action_plan_spec:
  assumes iter: "lists_each_once set_iter"
    and prices: "positive_prices asset_prices"
    and pv: "0 \<le> portfolio_value"
  shows "\<exists>acts.
     generate_action_plan set_iter cw tw portfolio_value asset_prices th = Inr acts \<and>
     distinct (map asset acts) \<and>
     set (map asset acts) =
       {a \<in> set (map fst cw) \<union> set (map fst tw). \<bar>drift_of cw tw a\<bar> > th} \<and>
     (\<forall>x \<in> set acts.
        current_weight x = dict_get cw (asset x) 0 \<and>
        target_weight x = dict_get tw (asset x) 0 \<and>
        drift x = current_weight x - target_weight x \<and>
        action x = (if drift x > 0 then ''SELL'' else ''BUY'') \<and>
        trade_amount x = \<bar>drift x\<bar> * portfolio_value \<and>
        trade_units x =
          \<lfloor>trade_amount x / dict_get (price_table asset_prices) (asset x) 100\<rfloor>) \<and>
     sorted_wrt (\<lambda>x y. trade_amount x \<ge> trade_amount y) acts \<and>
     ((\<forall>a \<in> set (map fst cw) \<union> set (map fst tw). \<bar>drift_of cw tw a\<bar> \<le> th) \<longrightarrow>
        acts = [])"
proof -
  define ps where "ps = price_table asset_prices"
  define as where "as = set_iter (map fst cw @ map fst tw)"
  define P where "P = (\<lambda>a. \<bar>drift_of cw tw a\<bar> > th)"
  define raw where "raw = map (action_of cw tw portfolio_value ps) (filter P as)"
  define acts where "acts = sort_reverse (\<lambda>x. \<bar>trade_amount x\<bar>) raw"
  have as_set: "set as = set (map fst cw) \<union> set (map fst tw)" and as_dist: "distinct as"
    using iter by (simp_all add: lists_each_once_def as_def)
  have pos: "list_all (\<lambda>(a, p). 0 < p) ps"
    using prices by (simp add: positive_prices_def ps_def)
  have loop: "action_loop cw tw portfolio_value ps th as [] = Inr raw"
    using action_loop_ok [OF pos pv, of cw tw th as "[]"] by (simp add: raw_def P_def)
  have res: "generate_action_plan set_iter cw tw portfolio_value asset_prices th = Inr acts"
    using loop
    by (simp add: generate_action_plan_def Let_def acts_def as_def ps_def price_table_def)
  have raw_assets: "map asset raw = filter P as"
    by (simp add: raw_def asset_action_of comp_def)
  have d: "distinct (map asset acts)"
    unfolding acts_def by (rule sort_reverse_distinct) (simp add: raw_assets as_dist)
  have s: "set (map asset acts) = {a \<in> set (map fst cw) \<union> set (map fst tw). P a}"
  proof -
    have "set (map asset acts) = asset ` set raw"
      by (simp add: acts_def sort_reverse_set)
    also have "\<dots> = set (map asset raw)" by simp
    also have "\<dots> = {a \<in> set as. P a}" by (simp add: raw_assets)
    finally show ?thesis by (simp add: as_set)
  qed
  have fields: "\<forall>x \<in> set acts.
        current_weight x = dict_get cw (asset x) 0 \<and>
        target_weight x = dict_get tw (asset x) 0 \<and>
        drift x = current_weight x - target_weight x \<and>
        action x = (if drift x > 0 then ''SELL'' else ''BUY'') \<and>
        trade_amount x = \<bar>drift x\<bar> * portfolio_value \<and>
        trade_units x = \<lfloor>trade_amount x / dict_get ps (asset x) 100\<rfloor>"
  proof
    fix x assume "x \<in> set acts"
    then have "x \<in> set raw" by (simp add: acts_def sort_reverse_set)
    then obtain a where "x = action_of cw tw portfolio_value ps a"
      by (auto simp: raw_def)
    then show "current_weight x = dict_get cw (asset x) 0 \<and>
        target_weight x = dict_get tw (asset x) 0 \<and>
        drift x = current_weight x - target_weight x \<and>
        action x = (if drift x > 0 then ''SELL'' else ''BUY'') \<and>
        trade_amount x = \<bar>drift x\<bar> * portfolio_value \<and>
        trade_units x = \<lfloor>trade_amount x / dict_get ps (asset x) 100\<rfloor>"
      by (simp add: action_of_def Let_def)
  qed
  have nonneg: "\<forall>x \<in> set acts. \<bar>trade_amount x\<bar> = trade_amount x"
    using fields pv by simp
  have "sorted_wrt (\<lambda>x y. \<bar>trade_amount x\<bar> \<ge> \<bar>trade_amount y\<bar>) acts"
    unfolding acts_def by (rule sort_reverse_sorted)
  then have srt: "sorted_wrt (\<lambda>x y. trade_amount x \<ge> trade_amount y) acts"
    by (rule sorted_wrt_mono_rel [rotated]) (use nonneg in auto)
  have empty: "(\<forall>a \<in> set (map fst cw) \<union> set (map fst tw). \<bar>drift_of cw tw a\<bar> \<le> th) \<longrightarrow>
        acts = []"
  proof
    assume "\<forall>a \<in> set (map fst cw) \<union> set (map fst tw). \<bar>drift_of cw tw a\<bar> \<le> th"
    then have "filter P as = []"
      by (auto simp: P_def as_set filter_empty_conv simp flip: not_le)
    then show "acts = []" by (simp add: acts_def raw_def sort_reverse_def)
  qed
  show ?thesis
    using res d s fields srt empty unfolding P_def ps_def by blast
qed


theorem generate_action_plan_spec_witness:
  "lists_each_once remdups \<and> positive_prices None \<and> (0::real) \<le> 1000 \<and>
   (\<exists>acts.
      generate_action_plan remdups [(''A'', 6 / 10), (''B'', 4 / 10)]
        [(''A'', 1 / 2), (''B'', 1 / 2)] 1000 None (5 / 100) = Inr acts \<and>
      distinct (map asset acts) \<and>
      sorted_wrt (\<lambda>x y. trade_amount x \<ge> trade_amount y) acts)"
proof -
  have h1: "lists_each_once remdups"
    by (simp add: lists_each_once_def)
  have h2: "positive_prices None"
    by (simp add: positive_prices_def price_table_def default_asset_prices_def)
  have h3: "(0::real) \<le> 1000"
    by simp
  from generate_action_plan_spec [OF h1 h2 h3,
      of "[(''A'', 6 / 10), (''B'', 4 / 10)]" "[(''A'', 1 / 2), (''B'', 1 / 2)]" "5 / 100"]
  obtain acts where
    "generate_action_plan remdups [(''A'', 6 / 10), (''B'', 4 / 10)]
        [(''A'', 1 / 2), (''B'', 1 / 2)] 1000 None (5 / 100) = Inr acts"
    "distinct (map asset acts)"
    "sorted_wrt (\<lambda>x y. trade_amount x \<ge> trade_amount y) acts"
    by blast
  with h1 h2 h3 show ?thesis
    by blast
qed

lemma generate_action_plan_example:
  "generate_action_plan remdups [(''A'', 6 / 10), (''B'', 4 / 10)]
     [(''A'', 1 / 2), (''B'', 3 / 10), (''C'', 2 / 10)] 1000 None (5 / 100) =
   Inr [\<lparr> asset = ''C'', action = ''BUY'', current_weight = 0, target_weight = 1 / 5,
           drift = - (1 / 5), trade_amount = 200, trade_units = 2 \<rparr>,
        \<lparr> asset = ''A'', action = ''SELL'', current_weight = 3 / 5, target_weight = 1 / 2,
           drift = 1 / 10, trade_amount = 100, trade_units = 1 \<rparr>,
        \<lparr> asset = ''B'', action = ''SELL'', current_weight = 2 / 5, target_weight = 3 / 10,
           drift = 1 / 10, trade_amount = 100, trade_units = 1 \<rparr>]"
  by (simp add: generate_action_plan_def default_asset_prices_def dict_get_def Let_def
      py_int_def sort_reverse_def)

section \<open>Properties of the Black-Litterman model\<close>

lemma loc_shape:
  assumes "loc df rows cols = Inr S"
  shows "length S = length rows" and "\<forall>i<length rows. length (S ! i) = length cols"
  using assms by (auto simp: loc_def split: if_splits)

lemma loc_succeeds:
  "set rows \<subseteq> set (df_index df) \<Longrightarrow> set cols \<subseteq> set (df_columns df) \<Longrightarrow>
   \<exists>S. loc df rows cols = Inr S"
  by (simp add: loc_def)

lemma dot_scaled_row:
  "dot (map ((*) c) row) w = c * (\<Sum>j<length row. row ! j * w ! j)"
  by (simp add: dot_def sum_distrib_left mult.assoc)

text \<open>
  Claim C7. When every key of the market weights labels a row and a column of the
  covariance table, \<^verbatim>\<open>calculate_equilibrium_returns\<close> returns one entry per asset, in
  key order, and entry \<open>i\<close> is
  \<open>risk_aversion * (\<Sum>j. Sigma i j * w j) + risk_free_rate\<close>, where \<open>Sigma\<close> is the
  covariance restricted to the assets. With a risk aversion of 0, or with a zero
  covariance, every entry is the risk-free rate.
\<close>

theorem calculate_equilibrium_returns_formula:
  assumes rows: "set (map fst market_weights) \<subseteq> set (df_index cov_matrix)"
    and cols: "set (map fst market_weights) \<subseteq> set (df_columns cov_matrix)"
  shows "\<exists>S ret.
     loc cov_matrix (map fst market_weights) (map fst market_weights) = Inr S \<and>
     calculate_equilibrium_returns cov_matrix market_weights risk_aversion risk_free_rate
       = Inr ret \<and>
     length ret = length market_weights \<and>
     map fst ret = map fst market_weights \<and>
     (\<forall>i<length market_weights.
        snd (ret ! i) =
          risk_aversion * (\<Sum>j<length market_weights. S ! i ! j * snd (market_weights ! j))
            + risk_free_rate) \<and>
     (risk_aversion = 0 \<longrightarrow> (\<forall>i<length market_weights. snd (ret ! i) = risk_free_rate)) \<and>
     ((\<forall>i<length market_weights. \<forall>j<length market_weights. S ! i ! j = 0) \<longrightarrow>
        (\<forall>i<length market_weights. snd (ret ! i) = risk_free_rate))"
proof -
  define assets where "assets = map fst market_weights"
  define n where "n = length market_weights"
  from loc_succeeds [OF rows cols] obtain S where S: "loc cov_matrix assets assets = Inr S"
    by (auto simp: assets_def)
  have len: "length S = n" and rowlen: "\<forall>i<n. length (S ! i) = n"
    using loc_shape [OF S] by (simp_all add: assets_def n_def)
  define ret where
    "ret = zip assets (map (\<lambda>x. x + risk_free_rate)
                         (mat_vec (scal risk_aversion S) (map snd market_weights)))"
  have res: "calculate_equilibrium_returns cov_matrix market_weights risk_aversion
               risk_free_rate = Inr ret"
    using S by (simp add: calculate_equilibrium_returns_def Let_def ret_def assets_def)
  have lr: "length ret = n"
    by (simp add: ret_def mat_vec_def scal_def len assets_def n_def)
  have fr: "map fst ret = assets"
    unfolding ret_def by (rule map_fst_zip) (simp add: mat_vec_def scal_def len assets_def n_def)
  have entry: "snd (ret ! i) =
      risk_aversion * (\<Sum>j<n. S ! i ! j * snd (market_weights ! j)) + risk_free_rate"
    if "i < n" for i
  proof -
    have "snd (ret ! i) = dot (map ((*) risk_aversion) (S ! i)) (map snd market_weights)
            + risk_free_rate"
      using that by (simp add: ret_def mat_vec_def scal_def len assets_def n_def)
    also have "\<dots> = risk_aversion * (\<Sum>j<n. S ! i ! j * map snd market_weights ! j)
            + risk_free_rate"
      using that rowlen by (simp add: dot_scaled_row)
    also have "(\<Sum>j<n. S ! i ! j * map snd market_weights ! j)
             = (\<Sum>j<n. S ! i ! j * snd (market_weights ! j))"
      by (rule sum.cong) (simp_all add: n_def)
    finally show ?thesis .
  qed
  have "\<forall>i<n. snd (ret ! i) =
      risk_aversion * (\<Sum>j<n. S ! i ! j * snd (market_weights ! j)) + risk_free_rate"
    using entry by blast
  moreover have "risk_aversion = 0 \<longrightarrow> (\<forall>i<n. snd (ret ! i) = risk_free_rate)"
    using entry by simp
  moreover have "(\<forall>i<n. \<forall>j<n. S ! i ! j = 0) \<longrightarrow> (\<forall>i<n. snd (ret ! i) = risk_free_rate)"
    using entry by simp
  ultimately show ?thesis
    using S res lr fr unfolding assets_def n_def by blast
qed

lemma calculate_equilibrium_returns_example:
  "calculate_equilibrium_returns example_cov example_market_weights (25 / 10) (2 / 100) =
     Inr example_returns"
  by (simp add: calculate_equilibrium_returns_def loc_def example_cov_def
      example_market_weights_def example_returns_def Let_def mat_vec_def scal_def dot_def)

theorem calculate_equilibrium_returns_witness:
  "set (map fst example_market_weights) \<subseteq> set (df_index example_cov) \<and>
   set (map fst example_market_weights) \<subseteq> set (df_columns example_cov) \<and>
   (\<exists>S ret.
      loc example_cov (map fst example_market_weights) (map fst example_market_weights)
        = Inr S \<and>
      calculate_equilibrium_returns example_cov example_market_weights (25 / 10) (2 / 100)
        = Inr ret \<and>
      ret = example_returns \<and>
      length ret = length example_market_weights)"
proof -
  have h1: "set (map fst example_market_weights) \<subseteq> set (df_index example_cov)"
    by (simp add: example_market_weights_def example_cov_def)
  have h2: "set (map fst example_market_weights) \<subseteq> set (df_columns example_cov)"
    by (simp add: example_market_weights_def example_cov_def)
  from calculate_equilibrium_returns_formula [OF h1 h2, of "25 / 10" "2 / 100"]
  obtain S ret where
    "loc example_cov (map fst example_market_weights) (map fst example_market_weights)
       = Inr S"
    "calculate_equilibrium_returns example_cov example_market_weights (25 / 10) (2 / 100)
       = Inr ret"
    "length ret = length example_market_weights"
    by blast
  with h1 h2 calculate_equilibrium_returns_example show ?thesis
    by auto
qed

text \<open>
  Claim C1. With an empty view dictionary, \<^verbatim>\<open>black_litterman\<close> returns the vector of
  \<^verbatim>\<open>calculate_equilibrium_returns\<close> on the same inputs, unchanged, together with the
  weights \<^verbatim>\<open>_optimize_portfolio\<close> gives for that vector; an exception of either call
  is the exception of \<^verbatim>\<open>black_litterman\<close>. Neither \<open>tau\<close>, the confidences nor the
  matrix inversion play a part.
\<close>

theorem black_litterman_no_views:
  "black_litterman linalg_inv solver cov_matrix market_weights [] view_confidences tau
     risk_aversion risk_free_rate =
   (case calculate_equilibrium_returns cov_matrix market_weights risk_aversion risk_free_rate of
      Inl e \<Rightarrow> Inl e
    | Inr equilibrium \<Rightarrow>
        (case optimize_portfolio solver equilibrium cov_matrix risk_aversion of
           Inl e \<Rightarrow> Inl e
         | Inr weights \<Rightarrow> Inr (equilibrium, weights)))"
  by (simp add: black_litterman_def Let_def split: sum.splits)

lemma optimize_portfolio_example:
  "optimize_portfolio no_convergence example_returns example_cov (25 / 10) =
     Inr (Weights [(''X'', 1 / 2), (''Y'', 1 / 2)])"
  by (simp add: optimize_portfolio_def loc_def example_cov_def example_returns_def
      no_convergence_def Let_def)

theorem black_litterman_no_views_witness:
  "black_litterman inv_upto2 no_convergence example_cov example_market_weights [] None
     (5 / 100) (25 / 10) (2 / 100) =
   Inr (example_returns, Weights [(''X'', 1 / 2), (''Y'', 1 / 2)])"
  using black_litterman_no_views [of inv_upto2 no_convergence example_cov
      example_market_weights None "5 / 100" "25 / 10" "2 / 100"]
    calculate_equilibrium_returns_example optimize_portfolio_example
  by simp

subsection \<open>The optimizer's post-processing\<close>

lemma prune_nonneg: "0 \<le> prune w"
  by (simp add: prune_def)

lemma sum_list_prune_nonneg: "0 \<le> sum_list (map prune ws)"
  by (rule sum_list_nonneg) (auto simp: prune_nonneg)

lemma sum_list_normalised:
  fixes ws :: "real list"
  assumes "sum_list ws \<noteq> 0"
  shows "sum_list (map (\<lambda>w. w / sum_list ws) ws) = 1"
proof -
  have "sum_list (map (\<lambda>w. w * inverse (sum_list ws)) ws) = sum_list ws * inverse (sum_list ws)"
    by (simp add: sum_list_mult_const)
  then show ?thesis using assms by (simp add: divide_inverse)
qed

lemma replicate_prune:
  "0 < n \<Longrightarrow> n \<le> 100 \<Longrightarrow>
   map (\<lambda>w. if w < 1 / 100 then 0 else w) (replicate n (1 / real n)) = replicate n (1 / real n)"
  by (simp add: field_simps)

lemma replicate_prune_many:
  "100 < n \<Longrightarrow>
   map (\<lambda>w. if w < 1 / 100 then 0 else w) (replicate n (1 / real n)) = replicate n 0"
  by (simp add: field_simps)

lemma zip_fst_replicate:
  "zip (map fst xs) (replicate (length xs) c) = map (\<lambda>(a, r). (a, c)) xs"
  by (induction xs) auto

text \<open>
  Whatever the solver returns, a series of numbers that \<^verbatim>\<open>_optimize_portfolio\<close>
  returns has every weight in [0, 1] and, unless empty, sums to 1.
\<close>

lemma optimize_portfolio_weights:
  assumes "optimize_portfolio solver expected_returns cov_matrix risk_aversion = Inr (Weights ws)"
  shows "map fst ws = map fst expected_returns \<and>
         (\<forall>w \<in> set (map snd ws). 0 \<le> w \<and> w \<le> 1) \<and>
         (ws \<noteq> [] \<longrightarrow> sum_list (map snd ws) = 1)"
proof -
  define assets where "assets = map fst expected_returns"
  from assms obtain S where S: "loc cov_matrix assets assets = Inr S"
    by (auto simp: optimize_portfolio_def Let_def assets_def split: sum.splits)
  obtain b x where sol: "solver (map snd expected_returns) S risk_aversion = (b, x)"
    by (cases "solver (map snd expected_returns) S risk_aversion")
  define raw where "raw = (if b then x else replicate (length assets) (1 / real (length assets)))"
  define pw where "pw = map prune raw"
  have unf: "optimize_portfolio solver expected_returns cov_matrix risk_aversion =
      (if length assets = 0 then Inl ValueError
       else if length pw \<noteq> length assets then Inl ValueError
       else if sum_list pw = 0 then Inr (NaN_weights assets)
       else Inr (Weights (zip assets (map (\<lambda>w. w / sum_list pw) pw))))"
    using S sol
    by (cases b)
      (simp_all add: optimize_portfolio_def Let_def assets_def pw_def raw_def
        prune_def[abs_def])
  from assms unf have len: "length pw = length assets"
    and ws: "ws = zip assets (map (\<lambda>w. w / sum_list pw) pw)"
    and nz: "sum_list pw \<noteq> 0"
    by (auto split: if_splits)
  have fst: "map fst ws = assets" and snd: "map snd ws = map (\<lambda>w. w / sum_list pw) pw"
    using len by (simp_all add: ws)
  have nonneg: "\<forall>w \<in> set pw. 0 \<le> w"
    by (auto simp: pw_def prune_nonneg)
  have tot: "0 \<le> sum_list pw"
    unfolding pw_def by (rule sum_list_prune_nonneg)
  have bound: "0 \<le> w / sum_list pw \<and> w / sum_list pw \<le> 1" if "w \<in> set pw" for w
  proof -
    have "w \<le> sum_list pw" using that nonneg by (simp add: member_le_sum_list)
    moreover have "0 \<le> w" using that nonneg by simp
    ultimately show ?thesis
      using tot by (cases "sum_list pw = 0") (simp_all add: divide_le_eq_1)
  qed
  have one: "sum_list (map snd ws) = 1" if "ws \<noteq> []"
  proof -
    from nz show ?thesis unfolding snd by (rule sum_list_normalised)
  qed
  show ?thesis
    using fst bound one by (auto simp: snd assets_def)
qed


text \<open>
  Claim C5. The weights are not always in [0, 1] with sum 1: when every weight is below
  1% before the clean-up, all are zeroed and the renormalization divides zero by zero.
  That happens with more than 100 assets whenever the solver fails (the fallback is
  \<open>1 / n\<close> each) or converges to the equal weighting; the returned series is NaN in
  every entry.
\<close>

theorem optimize_portfolio_all_pruned:
  assumes rows: "set (map fst expected_returns) \<subseteq> set (df_index cov_matrix)"
    and cols: "set (map fst expected_returns) \<subseteq> set (df_columns cov_matrix)"
    and sol: "\<forall>S. \<not> fst (solver (map snd expected_returns) S risk_aversion) \<or>
                 snd (solver (map snd expected_returns) S risk_aversion) =
                   replicate (length expected_returns) (1 / real (length expected_returns))"
    and n: "100 < length expected_returns"
  shows "optimize_portfolio solver expected_returns cov_matrix risk_aversion =
     Inr (NaN_weights (map fst expected_returns))"
proof -
  define k where "k = length expected_returns"
  from loc_succeeds [OF rows cols] obtain S where
    S: "loc cov_matrix (map fst expected_returns) (map fst expected_returns) = Inr S"
    by blast
  obtain b x where sol': "solver (map snd expected_returns) S risk_aversion = (b, x)"
    by (cases "solver (map snd expected_returns) S risk_aversion")
  with sol have x: "x = replicate k (1 / real k)" if b
    using that by (metis fst_conv snd_conv k_def)
  have k: "100 < k" using n by (simp add: k_def)
  have pr: "map (\<lambda>w. if w < 1 / 100 then 0 else w) (replicate k (1 / real k))
      = replicate k 0"
    using k by (rule replicate_prune_many)
  have tot: "sum_list (replicate k (0::real)) = 0"
    by (simp add: sum_list_replicate)
  show ?thesis
  proof (cases b)
    case True
    with x have sol'': "solver (map snd expected_returns) S risk_aversion =
        (True, replicate k (1 / real k))"
      using sol' by simp
    show ?thesis
      using k by (simp add: optimize_portfolio_def Let_def S sol'' pr tot flip: k_def)
  next
    case False
    with sol' have sol'': "solver (map snd expected_returns) S risk_aversion = (False, x)"
      by simp
    show ?thesis
      using k by (simp add: optimize_portfolio_def Let_def S sol'' pr tot flip: k_def)
  qed
qed

theorem optimize_portfolio_all_pruned_witness:
  "set (map fst many_returns) \<subseteq> set (df_index many_cov) \<and>
   set (map fst many_returns) \<subseteq> set (df_columns many_cov) \<and>
   100 < length many_returns \<and>
   optimize_portfolio equal_weight_optimum many_returns many_cov (25 / 10) =
     Inr (NaN_weights many_assets)"
proof -
  have f: "map fst many_returns = many_assets"
    by (simp add: many_returns_def comp_def)
  have h1: "set (map fst many_returns) \<subseteq> set (df_index many_cov)"
    by (simp add: f many_cov_def)
  have h2: "set (map fst many_returns) \<subseteq> set (df_columns many_cov)"
    by (simp add: f many_cov_def)
  have h3: "\<forall>S. \<not> fst (equal_weight_optimum (map snd many_returns) S (25 / 10)) \<or>
      snd (equal_weight_optimum (map snd many_returns) S (25 / 10)) =
        replicate (length many_returns) (1 / real (length many_returns))"
    by (simp add: equal_weight_optimum_def)
  have h4: "100 < length many_returns"
    by (simp add: many_returns_def many_assets_def)
  show ?thesis
    using h1 h2 h4
      optimize_portfolio_all_pruned [where expected_returns = many_returns
        and cov_matrix = many_cov and solver = equal_weight_optimum
        and risk_aversion = "25 / 10", OF h1 h2 h3 h4]
    by (simp add: f)
qed

text \<open>
  Claim C6, as the code has it. The value returned is the series of weights alone: a
  solve that failed and a solve that converged to the same weights return the same
  value, so the caller cannot tell them apart.
\<close>

theorem optimize_portfolio_failure_not_observable:
  "\<not> fst (no_convergence (map snd example_returns) (df_values example_cov) (25 / 10)) \<and>
   fst (equal_weight_optimum (map snd example_returns) (df_values example_cov) (25 / 10)) \<and>
   optimize_portfolio no_convergence example_returns example_cov (25 / 10) =
   optimize_portfolio equal_weight_optimum example_returns example_cov (25 / 10)"
  by (simp add: optimize_portfolio_def loc_def example_cov_def example_returns_def
      no_convergence_def equal_weight_optimum_def Let_def)

text \<open>
  Claim C6, amended. When the solver does not converge and there are between 1 and 100
  assets, each a label of the covariance table, \<^verbatim>\<open>_optimize_portfolio\<close> returns the
  equal weighting \<open>1 / n\<close>, and nothing else: no flag accompanies the weights.
\<close>

theorem optimize_portfolio_fallback:
  assumes rows: "set (map fst expected_returns) \<subseteq> set (df_index cov_matrix)"
    and cols: "set (map fst expected_returns) \<subseteq> set (df_columns cov_matrix)"
    and fail: "\<forall>S. \<not> fst (solver (map snd expected_returns) S risk_aversion)"
    and n: "0 < length expected_returns" "length expected_returns \<le> 100"
  shows "optimize_portfolio solver expected_returns cov_matrix risk_aversion =
     Inr (Weights (map (\<lambda>(a, r). (a, 1 / real (length expected_returns))) expected_returns))"
proof -
  define k where "k = length expected_returns"
  from loc_succeeds [OF rows cols] obtain S where
    S: "loc cov_matrix (map fst expected_returns) (map fst expected_returns) = Inr S"
    by blast
  obtain b x where sol: "solver (map snd expected_returns) S risk_aversion = (b, x)"
    by (cases "solver (map snd expected_returns) S risk_aversion")
  with fail have b: "\<not> b" by (metis fst_conv)
  have k: "0 < k" "k \<le> 100" using n by (simp_all add: k_def)
  have pr: "map (\<lambda>w. if w < 1 / 100 then 0 else w) (replicate k (1 / real k))
      = replicate k (1 / real k)"
    using k by (rule replicate_prune)
  have tot: "sum_list (replicate k (1 / real k)) = 1"
    using k by (simp add: sum_list_replicate)
  have z: "zip (map fst expected_returns) (replicate k (1 / real k)) =
      map (\<lambda>(a, r). (a, 1 / real k)) expected_returns"
    unfolding k_def by (rule zip_fst_replicate)
  show ?thesis
    using k by (simp add: optimize_portfolio_def Let_def S sol b pr tot z flip: k_def)
qed

theorem optimize_portfolio_fallback_witness:
  "set (map fst example_returns) \<subseteq> set (df_index example_cov) \<and>
   set (map fst example_returns) \<subseteq> set (df_columns example_cov) \<and>
   (\<forall>S. \<not> fst (no_convergence (map snd example_returns) S (25 / 10))) \<and>
   0 < length example_returns \<and> length example_returns \<le> 100 \<and>
   optimize_portfolio no_convergence example_returns example_cov (25 / 10) =
     Inr (Weights [(''X'', 1 / 2), (''Y'', 1 / 2)])"
proof -
  have h1: "set (map fst example_returns) \<subseteq> set (df_index example_cov)"
    by (simp add: example_returns_def example_cov_def)
  have h2: "set (map fst example_returns) \<subseteq> set (df_columns example_cov)"
    by (simp add: example_returns_def example_cov_def)
  have h3: "\<forall>S. \<not> fst (no_convergence (map snd example_returns) S (25 / 10))"
    by (simp add: no_convergence_def)
  have h4: "0 < length example_returns" and h5: "length example_returns \<le> 100"
    by (simp_all add: example_returns_def)
  show ?thesis
    using h1 h2 h3 h4 h5
      optimize_portfolio_fallback [where expected_returns = example_returns
        and cov_matrix = example_cov and solver = no_convergence
        and risk_aversion = "25 / 10", OF h1 h2 h3 h4 h5]
    by (simp add: example_returns_def)
qed

subsection \<open>Calls with views\<close>

lemma pick_row_unknown: "a \<notin> set assets \<Longrightarrow> pick_row assets a = replicate (length assets) 0"
  by (simp add: pick_row_def)

lemma confidence_loop_read_only:
  "views \<noteq> [] \<Longrightarrow> confidence_loop confidences views i (omega_diag, False) = Inl ValueError"
  by (cases views) (auto simp: Let_def)

lemma uncertainty_matrix_read_only:
  "views \<noteq> [] \<Longrightarrow> uncertainty_matrix assets views confidences tau Sig = Inl ValueError"
  by (simp add: uncertainty_matrix_def Let_def np_diag_view_def confidence_loop_read_only)

text \<open>
  With the assets labelled in the covariance table, every call with at least one view
  ends in the \<^verbatim>\<open>ValueError\<close> of the first in-place division: no inversion is reached
  and no posterior is returned.
\<close>

lemma black_litterman_views_raise:
  assumes rows: "set (map fst market_weights) \<subseteq> set (df_index cov_matrix)"
    and cols: "set (map fst market_weights) \<subseteq> set (df_columns cov_matrix)"
    and views: "views \<noteq> []"
  shows "black_litterman linalg_inv solver cov_matrix market_weights views view_confidences
           tau risk_aversion risk_free_rate = Inl ValueError"
proof -
  from loc_succeeds [OF rows cols] obtain S where
    S: "loc cov_matrix (map fst market_weights) (map fst market_weights) = Inr S"
    by blast
  have eq: "\<exists>pi_s. calculate_equilibrium_returns cov_matrix market_weights risk_aversion
      risk_free_rate = Inr pi_s"
    by (simp add: calculate_equilibrium_returns_def Let_def S)
  then obtain pi_s where
    "calculate_equilibrium_returns cov_matrix market_weights risk_aversion risk_free_rate
       = Inr pi_s"
    by blast
  then show ?thesis
    using views
    by (simp add: black_litterman_def Let_def S uncertainty_matrix_read_only)
qed

text \<open>
  Claim C2. The posterior is not monotone in the confidence, because no posterior is
  produced: for a single view on one asset, with the assets labelled in the covariance
  table, \<^verbatim>\<open>black_litterman\<close> raises \<^verbatim>\<open>ValueError\<close> whatever the confidence, at
  confidence 1.0 and at confidence 0.1 alike. The division of \<open>Omega_ii\<close> by
  \<open>max(confidence_i, 0.1)\<close> is written into the read-only diagonal that \<^verbatim>\<open>np.diag\<close>
  returns.
\<close>

theorem black_litterman_confidence_raises:
  assumes rows: "set (map fst market_weights) \<subseteq> set (df_index cov_matrix)"
    and cols: "set (map fst market_weights) \<subseteq> set (df_columns cov_matrix)"
  shows "black_litterman linalg_inv solver cov_matrix market_weights [(a, q)]
           (Some [(a, confidence)]) tau risk_aversion risk_free_rate = Inl ValueError \<and>
         black_litterman linalg_inv solver cov_matrix market_weights [(a, q)]
           (Some [(a, 1)]) tau risk_aversion risk_free_rate = Inl ValueError \<and>
         black_litterman linalg_inv solver cov_matrix market_weights [(a, q)]
           (Some [(a, 1 / 10)]) tau risk_aversion risk_free_rate = Inl ValueError"
proof -
  have "black_litterman linalg_inv solver cov_matrix market_weights [(a, q)] vc tau
      risk_aversion risk_free_rate = Inl ValueError" for vc
    using rows cols by (rule black_litterman_views_raise) simp
  then show ?thesis by simp
qed

theorem black_litterman_confidence_raises_witness:
  "set (map fst example_market_weights) \<subseteq> set (df_index example_cov) \<and>
   set (map fst example_market_weights) \<subseteq> set (df_columns example_cov) \<and>
   black_litterman inv_upto2 no_convergence example_cov example_market_weights
     [(''X'', 1 / 10)] (Some [(''X'', 1)]) (5 / 100) (25 / 10) (2 / 100) = Inl ValueError \<and>
   black_litterman inv_upto2 no_convergence example_cov example_market_weights
     [(''X'', 1 / 10)] (Some [(''X'', 1 / 10)]) (5 / 100) (25 / 10) (2 / 100) = Inl ValueError"
proof -
  have h1: "set (map fst example_market_weights) \<subseteq> set (df_index example_cov)"
    by (simp add: example_market_weights_def example_cov_def)
  have h2: "set (map fst example_market_weights) \<subseteq> set (df_columns example_cov)"
    by (simp add: example_market_weights_def example_cov_def)
  show ?thesis
    using h1 h2
      black_litterman_confidence_raises [OF h1 h2, of inv_upto2 no_convergence "''X''"
        "1 / 10" 1 "5 / 100" "25 / 10" "2 / 100"]
    by blast
qed

text \<open>
  Claim C9. A view on an asset that is not a key of the market weights does leave its
  row of the pick matrix zero, but the call is not silent and the view is not dropped:
  with the assets labelled in the covariance table, \<^verbatim>\<open>black_litterman\<close> raises
  \<^verbatim>\<open>ValueError\<close> at the first in-place division of the read-only diagonal, as it does
  for every non-empty view dictionary, and returns no posterior.
\<close>

theorem black_litterman_unknown_view_raises:
  assumes rows: "set (map fst market_weights) \<subseteq> set (df_index cov_matrix)"
    and cols: "set (map fst market_weights) \<subseteq> set (df_columns cov_matrix)"
    and view: "(a, v) \<in> set views"
    and unknown: "a \<notin> set (map fst market_weights)"
  shows "pick_row (map fst market_weights) a = replicate (length market_weights) 0 \<and>
         black_litterman linalg_inv solver cov_matrix market_weights views view_confidences
           tau risk_aversion risk_free_rate = Inl ValueError"
proof -
  have "views \<noteq> []" using view by auto
  with rows cols have "black_litterman linalg_inv solver cov_matrix market_weights views
      view_confidences tau risk_aversion risk_free_rate = Inl ValueError"
    by (rule black_litterman_views_raise)
  moreover have "pick_row (map fst market_weights) a = replicate (length market_weights) 0"
    using pick_row_unknown [OF unknown] by simp
  ultimately show ?thesis by simp
qed

theorem black_litterman_unknown_view_raises_witness:
  "set (map fst example_market_weights) \<subseteq> set (df_index example_cov) \<and>
   set (map fst example_market_weights) \<subseteq> set (df_columns example_cov) \<and>
   (''Z'', 5 / 100) \<in> set [(''Z'', 5 / 100 :: real)] \<and>
   ''Z'' \<notin> set (map fst example_market_weights) \<and>
   pick_row (map fst example_market_weights) ''Z'' = [0, 0] \<and>
   black_litterman inv_upto2 no_convergence example_cov example_market_weights
     [(''Z'', 5 / 100)] None (5 / 100) (25 / 10) (2 / 100) = Inl ValueError"
proof -
  have h1: "set (map fst example_market_weights) \<subseteq> set (df_index example_cov)"
    by (simp add: example_market_weights_def example_cov_def)
  have h2: "set (map fst example_market_weights) \<subseteq> set (df_columns example_cov)"
    by (simp add: example_market_weights_def example_cov_def)
  have h3: "(''Z'', 5 / 100) \<in> set [(''Z'', 5 / 100 :: real)]"
    by simp
  have h4: "''Z'' \<notin> set (map fst example_market_weights)"
    by (simp add: example_market_weights_def)
  have len: "replicate (length example_market_weights) (0::real) = [0, 0]"
    by (simp add: example_market_weights_def)
  show ?thesis
    using h1 h2 h3 h4
      black_litterman_unknown_view_raises [OF h1 h2 h3 h4, of inv_upto2 no_convergence None
        "5 / 100" "25 / 10" "2 / 100"]
    by (simp add: len)
qed

section \<open>Properties of the Monte Carlo projector\<close>

lemma gbm_step_row:
  assumes "k < m"
  shows "gbm_step d v c Z
      (map (\<lambda>i. map (gbm_path w0 d v c Z i) [0..<Suc k] @ replicate (m - k) 0) [0..<n])
      (Suc k) =
    map (\<lambda>i. map (gbm_path w0 d v c Z i) [0..<Suc (Suc k)] @ replicate (m - Suc k) 0) [0..<n]"
proof -
  obtain j where j: "m - k = Suc j" and j': "m - Suc k = j"
    using assms by (cases "m - k") auto
  have row: "(map (gbm_path w0 d v c Z i) [0..<Suc k] @ replicate (Suc j) 0)
        [Suc k := x] =
      map (gbm_path w0 d v c Z i) [0..<Suc k] @ x # replicate j 0" for i x
    by (simp add: list_update_append)
  have prev: "(map (gbm_path w0 d v c Z i) [0..<Suc k] @ replicate (Suc j) 0) ! k
      = gbm_path w0 d v c Z i k" for i
    by (simp add: nth_append)
  have ext: "map (gbm_path w0 d v c Z i) [0..<Suc (Suc k)] =
      map (gbm_path w0 d v c Z i) [0..<Suc k] @
        [gbm_path w0 d v c Z i k * exp (d + v * Z i k) + c]" for i
    by simp
  show ?thesis
    unfolding gbm_step_def j j'
    by (rule nth_equalityI) (simp_all add: row prev ext del: upt_Suc replicate_Suc)
qed

lemma foldl_gbm_step:
  "k \<le> m \<Longrightarrow>
   foldl (gbm_step d v c Z) (replicate n (w0 # replicate m 0)) [1..<k + 1] =
   map (\<lambda>i. map (gbm_path w0 d v c Z i) [0..<Suc k] @ replicate (m - k) 0) [0..<n]"
proof (induction k)
  case 0
  show ?case by (simp add: map_replicate_const)
next
  case (Suc k)
  then have k: "k < m" by simp
  have "[1..<Suc k + 1] = [1..<k + 1] @ [Suc k]" by simp
  then show ?case
    using Suc.IH k gbm_step_row [OF k, of d v c Z w0 n] by (simp del: upt_Suc)
qed

lemma geometric_shift:
  fixes e :: real
  shows "(\<Sum>k<Suc t. e ^ k) = 1 + e * (\<Sum>k<t. e ^ k)"
  by (simp add: sum.lessThan_Suc_shift sum_distrib_left del: sum.lessThan_Suc)

lemma gbm_path_no_volatility:
  "gbm_path w0 d 0 c Z i t = w0 * exp d ^ t + c * (\<Sum>k<t. exp d ^ k)"
proof (induction t)
  case 0
  show ?case by simp
next
  case (Suc t)
  have "gbm_path w0 d 0 c Z i (Suc t) =
      (w0 * exp d ^ t + c * (\<Sum>k<t. exp d ^ k)) * exp d + c"
    by (simp add: Suc.IH)
  also have "\<dots> = w0 * exp d ^ Suc t + c * (1 + exp d * (\<Sum>k<t. exp d ^ k))"
    by (simp add: algebra_simps)
  also have "\<dots> = w0 * exp d ^ Suc t + c * (\<Sum>k<Suc t. exp d ^ k)"
    by (simp only: geometric_shift)
  finally show ?case .
qed


lemma run_monte_carlo_state:
  "snd (run_monte_carlo seed standard_normal g current_wealth monthly_contribution
     years_to_retire annual_return annual_volatility n_simulations goal_amount) =
   (if n_simulations < 0 \<or> years_to_retire * 12 + 1 < 0 then seed 42
    else snd (standard_normal (seed 42) (nat n_simulations) (nat (years_to_retire * 12))))"
  by (simp add: run_monte_carlo_def Let_def case_prod_unfold split: sum.splits)

lemma run_monte_carlo_paths:
  assumes y: "0 \<le> years_to_retire" and n: "0 < n_simulations"
  shows "\<exists>res.
     run_monte_carlo seed standard_normal g current_wealth monthly_contribution
       years_to_retire annual_return annual_volatility n_simulations goal_amount =
     (Inr res, snd (standard_normal (seed 42) (nat n_simulations) (nat (years_to_retire * 12)))) \<and>
     paths res =
       map (\<lambda>i. map (gbm_path current_wealth
                        ((annual_return - 5 / 10 * annual_volatility ^ 2) / 12)
                        (annual_volatility / sqrt 12) monthly_contribution
                        (fst (standard_normal (seed 42) (nat n_simulations)
                                (nat (years_to_retire * 12)))) i)
                  [0..<Suc (nat (years_to_retire * 12))])
         [0..<nat n_simulations]"
proof -
  define m where "m = nat (years_to_retire * 12)"
  define k where "k = nat n_simulations"
  obtain Z g2 where sn: "standard_normal (seed 42) k m = (Z, g2)"
    by (cases "standard_normal (seed 42) k m")
  have valid: "\<not> (n_simulations < 0 \<or> years_to_retire * 12 + 1 < 0)"
    using y n by simp
  have k: "0 < k" using n by (simp add: k_def)
  have fold: "foldl (gbm_step d v c Z) (replicate k (w0 # replicate m 0)) [Suc 0..<Suc m] =
      map (\<lambda>i. map (gbm_path w0 d v c Z i) [0..<Suc m]) [0..<k]" for d v c w0
    using foldl_gbm_step [of m m d v c Z k w0] by (simp del: upt_Suc)
  have nonempty: "map (\<lambda>i. map (gbm_path w0 d v c Z i) [0..<Suc m]) [0..<k] \<noteq> []"
    for d v c w0
    using k by simp
  show ?thesis
    using valid k
    by (simp add: run_monte_carlo_def Let_def sn fold nonempty percentile_axis0_def
        del: upt_Suc flip: m_def k_def)
qed

lemma foldl_gbm_step_no_paths: "foldl (gbm_step d v c Z) [] ts = []"
  by (induction ts) (simp_all add: gbm_step_def)

text \<open>With zero simulations the call raises \<^verbatim>\<open>IndexError\<close>, for every horizon.\<close>

lemma run_monte_carlo_no_simulations:
  "0 \<le> years_to_retire \<Longrightarrow>
   fst (run_monte_carlo seed standard_normal g current_wealth monthly_contribution
          years_to_retire annual_return annual_volatility 0 goal_amount) = Inl IndexError"
  by (simp add: run_monte_carlo_def Let_def case_prod_unfold foldl_gbm_step_no_paths
      percentile_axis0_def del: upt_Suc)

text \<open>
  Claim C4. For a non-negative horizon and at least one simulation, \<^verbatim>\<open>run_monte_carlo\<close>
  returns one path per simulation, each of \<open>12 * years + 1\<close> values starting at the
  current wealth, and every step of every path is
  \<open>S (t + 1) = S t * exp (d + sigma_m * Z i t) + contribution\<close> with
  \<open>d = (annual_return - 0.5 * annual_volatility\<^sup>2) / 12\<close>,
  \<open>sigma_m = annual_volatility / sqrt 12\<close> and \<open>Z i t\<close> the entry of the normal sample
  for path \<open>i\<close> and step \<open>t\<close>. With a volatility of 0 every path is the deterministic
  compounding \<open>W * g ^ t + contribution * (\<Sum>k<t. g ^ k)\<close>, \<open>g = exp (annual_return / 12)\<close>.
\<close>

theorem run_monte_carlo_gbm:
  assumes y: "0 \<le> years_to_retire" and n: "0 < n_simulations"
  shows "\<exists>res g'.
     run_monte_carlo seed standard_normal g current_wealth monthly_contribution
       years_to_retire annual_return annual_volatility n_simulations goal_amount =
     (Inr res, g') \<and>
     length (paths res) = nat n_simulations \<and>
     (\<forall>i<nat n_simulations.
        length (paths res ! i) = nat (years_to_retire * 12) + 1 \<and>
        paths res ! i ! 0 = current_wealth \<and>
        (\<forall>t<nat (years_to_retire * 12).
           paths res ! i ! Suc t =
             paths res ! i ! t *
               exp ((annual_return - 5 / 10 * annual_volatility ^ 2) / 12 +
                    annual_volatility / sqrt 12 *
                      fst (standard_normal (seed 42) (nat n_simulations)
                             (nat (years_to_retire * 12))) i t)
             + monthly_contribution)) \<and>
     (annual_volatility = 0 \<longrightarrow>
        (\<forall>i<nat n_simulations. \<forall>t\<le>nat (years_to_retire * 12).
           paths res ! i ! t =
             current_wealth * exp (annual_return / 12) ^ t
             + monthly_contribution * (\<Sum>k<t. exp (annual_return / 12) ^ k)))"
proof -
  define m where "m = nat (years_to_retire * 12)"
  define k where "k = nat n_simulations"
  define Z where "Z = fst (standard_normal (seed 42) k m)"
  define d where "d = (annual_return - 5 / 10 * annual_volatility ^ 2) / 12"
  define v where "v = annual_volatility / sqrt 12"
  from run_monte_carlo_paths [OF y n, of seed standard_normal g current_wealth
      monthly_contribution annual_return annual_volatility goal_amount]
  obtain res where
    res: "run_monte_carlo seed standard_normal g current_wealth monthly_contribution
       years_to_retire annual_return annual_volatility n_simulations goal_amount =
     (Inr res, snd (standard_normal (seed 42) k m))"
    and ps: "paths res =
       map (\<lambda>i. map (gbm_path current_wealth d v monthly_contribution Z i) [0..<Suc m])
         [0..<k]"
    unfolding m_def k_def Z_def d_def v_def by blast
  have len: "length (paths res) = k"
    by (simp add: ps)
  have entry: "paths res ! i ! t = gbm_path current_wealth d v monthly_contribution Z i t"
    if "i < k" "t \<le> m" for i t
  proof -
    have "paths res ! i = map (gbm_path current_wealth d v monthly_contribution Z i) [0..<Suc m]"
      using that(1) by (simp add: ps)
    moreover have "t < Suc m" using that(2) by simp
    ultimately show ?thesis
      by (simp del: upt_Suc)
  qed
  have rowlen: "length (paths res ! i) = m + 1" if "i < k" for i
    using that by (simp add: ps)
  have step: "paths res ! i ! Suc t =
      paths res ! i ! t * exp (d + v * Z i t) + monthly_contribution"
    if "i < k" "t < m" for i t
    using that by (simp add: entry)
  have det: "paths res ! i ! t =
      current_wealth * exp (annual_return / 12) ^ t
      + monthly_contribution * (\<Sum>k<t. exp (annual_return / 12) ^ k)"
    if "annual_volatility = 0" "i < k" "t \<le> m" for i t
  proof -
    from that(1) have dv: "v = 0" "d = annual_return / 12"
      by (simp_all add: v_def d_def)
    show ?thesis
      unfolding entry [OF that(2,3)] dv by (rule gbm_path_no_volatility)
  qed
  have first: "paths res ! i ! 0 = current_wealth" if "i < k" for i
    using that by (simp add: entry)
  show ?thesis
    using res len rowlen first step det
    unfolding m_def k_def Z_def d_def v_def by blast
qed

text \<open>
  Claim C3, amended. \<^verbatim>\<open>run_monte_carlo\<close> has no seed parameter. It reseeds the
  process-wide generator with the constant 42 on every call, so two calls with the same
  arguments return the same result whatever the generator's state was before, and the
  call leaves the generator in the state reached from seed 42.
\<close>

theorem run_monte_carlo_reseeds:
  "run_monte_carlo seed standard_normal g current_wealth monthly_contribution
     years_to_retire annual_return annual_volatility n_simulations goal_amount =
   run_monte_carlo seed standard_normal g' current_wealth monthly_contribution
     years_to_retire annual_return annual_volatility n_simulations goal_amount \<and>
   snd (run_monte_carlo seed standard_normal g current_wealth monthly_contribution
     years_to_retire annual_return annual_volatility n_simulations goal_amount) =
   (if n_simulations < 0 \<or> years_to_retire * 12 + 1 < 0 then seed 42
    else snd (standard_normal (seed 42) (nat n_simulations) (nat (years_to_retire * 12))))"
proof -
  have "run_monte_carlo seed standard_normal g current_wealth monthly_contribution
     years_to_retire annual_return annual_volatility n_simulations goal_amount =
   run_monte_carlo seed standard_normal g' current_wealth monthly_contribution
     years_to_retire annual_return annual_volatility n_simulations goal_amount"
    by (simp add: run_monte_carlo_def)
  then show ?thesis
    by (simp add: run_monte_carlo_state)
qed

text \<open>
  Claim C3 as stated fails: the call relies on the process-wide generator and overwrites
  its state. With the counting generator in state 7 at the call, the state afterwards is
  that of seed 42 followed by 2 * 12 draws.
\<close>

theorem run_monte_carlo_writes_global_state:
  "snd (run_monte_carlo counter_seed counter_standard_normal 7 1000 100 1 (7 / 100)
          (15 / 100) 2 None) = 66 \<and>
   snd (run_monte_carlo counter_seed counter_standard_normal 7 1000 100 1 (7 / 100)
          (15 / 100) 2 None) \<noteq> 7"
  by (simp add: run_monte_carlo_state counter_seed_def counter_standard_normal_def)

theorem run_monte_carlo_gbm_witness:
  "(0::int) \<le> 1 \<and> (0::int) < 2 \<and>
   (\<exists>res g'.
      run_monte_carlo counter_seed counter_standard_normal 7 1000 100 1 (7 / 100) 0 2 None
        = (Inr res, g') \<and>
      length (paths res) = 2 \<and>
      paths res ! 0 ! 0 = 1000 \<and>
      paths res ! 0 ! 1 = 1000 * exp (7 / 1200) + 100)"
proof -
  have h1: "(0::int) \<le> 1" and h2: "(0::int) < 2" by simp_all
  from run_monte_carlo_gbm [OF h1 h2, of counter_seed counter_standard_normal 7 1000 100
      "7 / 100" 0 None]
  obtain res g' where
    r: "run_monte_carlo counter_seed counter_standard_normal 7 1000 100 1 (7 / 100) 0 2 None
        = (Inr res, g')"
    and l: "length (paths res) = nat 2"
    and z: "\<forall>i<nat 2. paths res ! i ! 0 = 1000"
    and f: "\<forall>i<nat 2. \<forall>t\<le>nat (1 * 12).
           paths res ! i ! t =
             1000 * exp ((7 / 100) / 12) ^ t + 100 * (\<Sum>k<t. exp ((7 / 100) / 12) ^ k)"
    by auto
  have "paths res ! 0 ! 1 = 1000 * exp (7 / 1200) + 100"
    using f [rule_format, of 0 1] by simp
  moreover have "paths res ! 0 ! 0 = 1000"
    using z by simp
  ultimately show ?thesis
    using r l by auto
qed

end
